theory Spec2Isabelle
  imports Main "HOL-Library.Word"
begin

section \<open>Tables and cells\<close>

text \<open>
  The finalization script \<^verbatim>\<open>final.py\<close> works on pandas tables. A cell of a table read
  with \<^verbatim>\<open>pd.read_csv(..., dtype=str)\<close> is a text or the missing value (float NaN);
  after coercion the two numeric columns hold 64-bit integers. Text is a list of
  characters with code points below 256, where the only decimal digits are
  \<^verbatim>\<open>0\<close> to \<^verbatim>\<open>9\<close>.

  A table is stored by column, as pandas does: the length of its index and the list of
  labelled columns. Labels may repeat (pandas allows it, and renaming can make two
  labels equal), so the columns are an association list.
\<close>

datatype cell = Str string | NaN | I64 "64 word"

record dataframe =
  nrows :: nat
  cols :: "(string \<times> cell list) list"

definition wf_df :: "dataframe \<Rightarrow> bool" where
  "wf_df df = list_all (\<lambda>p. length (snd p) = nrows df) (cols df)"

definition columns :: "dataframe \<Rightarrow> string list" where
  "columns df = map fst (cols df)"

text \<open>\<^verbatim>\<open>pd.DataFrame()\<close>: no column, no row.\<close>

definition empty_DataFrame :: dataframe where
  "empty_DataFrame = \<lparr>nrows = 0, cols = []\<rparr>"

text \<open>\<^verbatim>\<open>df.empty\<close>: one of the two axes has length zero.\<close>

definition empty_df :: "dataframe \<Rightarrow> bool" where
  "empty_df df = (nrows df = 0 \<or> cols df = [])"

section \<open>Text of a value\<close>

definition digit_char :: "nat \<Rightarrow> char" where
  "digit_char d = ''0123456789'' ! d"

fun str_nat :: "nat \<Rightarrow> string" where
  "str_nat n = (if n < 10 then [digit_char n] else str_nat (n div 10) @ [digit_char (n mod 10)])"

declare str_nat.simps [simp del]

definition str_int :: "int \<Rightarrow> string" where
  "str_int i = (if i < 0 then CHR ''-'' # str_nat (nat (- i)) else str_nat (nat i))"

text \<open>\<^verbatim>\<open>str(x)\<close> of a cell value; the float NaN prints as \<^verbatim>\<open>nan\<close>.\<close>

fun py_str :: "cell \<Rightarrow> string" where
  "py_str (Str s) = s"
| "py_str NaN = ''nan''"
| "py_str (I64 w) = str_int (sint w)"

text \<open>\<^verbatim>\<open>pd.isna(x)\<close> on a scalar.\<close>

fun isna :: "cell \<Rightarrow> bool" where
  "isna NaN = True"
| "isna _ = False"

section \<open>Series operations used by the coercions\<close>

definition astype_str :: "cell list \<Rightarrow> cell list" where
  "astype_str xs = map (\<lambda>v. Str (py_str v)) xs"

definition is_digit :: "char \<Rightarrow> bool" where
  "is_digit c = (c \<in> set ''0123456789'')"

text \<open>
  The pattern \<^verbatim>\<open>(\d+)\<close>: \<open>match_digits\<close> is the greedy match anchored at the start of
  the text, \<open>re_search_digits\<close> tries every start position from the left and returns the
  first group of the first match.
\<close>

definition match_digits :: "string \<Rightarrow> string option" where
  "match_digits s = (case takeWhile is_digit s of [] \<Rightarrow> None | d # ds \<Rightarrow> Some (d # ds))"

fun re_search_digits :: "string \<Rightarrow> string option" where
  "re_search_digits [] = None"
| "re_search_digits (c # cs) =
     (case match_digits (c # cs) of Some m \<Rightarrow> Some m | None \<Rightarrow> re_search_digits cs)"

text \<open>\<^verbatim>\<open>.str.extract(r'(\d+)')[0]\<close>: no match, or a value that is no text, gives NaN.\<close>

definition str_extract_digits :: "cell list \<Rightarrow> cell list" where
  "str_extract_digits xs =
     map (\<lambda>v. case v of
                 Str s \<Rightarrow> (case re_search_digits s of Some m \<Rightarrow> Str m | None \<Rightarrow> NaN)
               | _ \<Rightarrow> NaN) xs"

definition fillna :: "cell \<Rightarrow> cell list \<Rightarrow> cell list" where
  "fillna d xs = map (\<lambda>v. if isna v then d else v) xs"

text \<open>Lines 58 to 63: the \<^verbatim>\<open>county_fips\<close> column; the \<^verbatim>\<open>zfill(5)\<close> is commented out.\<close>

definition coerce_county_fips :: "cell list \<Rightarrow> cell list" where
  "coerce_county_fips xs = fillna (Str '''') (str_extract_digits (astype_str xs))"

text \<open>
  The specification's wording of the same coercion: the first contiguous run of digit
  characters of the text, empty when the text has no digit.
\<close>

definition first_digit_run :: "string \<Rightarrow> string" where
  "first_digit_run s = takeWhile is_digit (dropWhile (\<lambda>c. \<not> is_digit c) s)"

text \<open>\<^verbatim>\<open>.str.replace(c, '', regex=False)\<close> for a one-character \<open>c\<close>: every occurrence goes.\<close>

definition str_remove :: "char \<Rightarrow> cell list \<Rightarrow> cell list" where
  "str_remove c xs =
     map (\<lambda>v. case v of Str s \<Rightarrow> Str (filter (\<lambda>x. x \<noteq> c) s) | _ \<Rightarrow> NaN) xs"

section \<open>Exceptions, log records and the library\<close>

datatype exn = AttributeError | TypeError | ValueError | KeyError | OSError | ParserError

datatype level = INFO | ERROR

text \<open>One constructor for each logging call of the script, with the values it prints.\<close>

datatype message =
    Finalizing string
  | Original_shape nat nat
  | Original_columns "string list"
  | Columns_after_renaming "string list"
  | Missing_required_columns string "string list"
  | Dtypes_after_coercion
  | Processing string
  | Loaded nat nat string
  | Failed_to_finalize string
  | Saved string
  | Finalized_records nat
  | Error_processing string exn

type_synonym log = "(level \<times> message) list"

text \<open>
  Three behaviours of pandas and Python are parameters of the model, because they are
  decided by code outside the script and, for the second, by floating-point arithmetic:
  \<^item> \<open>read_csv\<close>: the table that \<^verbatim>\<open>pd.read_csv(path, encoding='utf-8', dtype=str)\<close>
    builds from the content of a file, or the exception it raises;
  \<^item> \<open>float_cast\<close>: for a column that \<^verbatim>\<open>pd.to_numeric\<close> does not return as
    \<^verbatim>\<open>int64\<close>, the 64-bit integer that \<^verbatim>\<open>.fillna(0).astype('int64')\<close> leaves in the
    place of a given cell, \<open>None\<close> when the cast raises (a non-finite value);
  \<^item> \<open>int_of_text\<close>: Python's \<^verbatim>\<open>int(s)\<close> on a text, \<open>None\<close> when it raises.
  Every theorem below holds for all values of the three.
\<close>

record library =
  read_csv :: "string \<Rightarrow> exn + dataframe"
  float_cast :: "cell list \<Rightarrow> cell \<Rightarrow> 64 word option"
  int_of_text :: "string \<Rightarrow> int option"

section \<open>Numeric coercion\<close>

definition digit_val :: "char \<Rightarrow> nat" where
  "digit_val c = of_char c - 48"

definition dec_value :: "string \<Rightarrow> nat" where
  "dec_value ds = foldl (\<lambda>a c. 10 * a + digit_val c) 0 ds"

text \<open>A plain integer literal: an optional sign, then one digit or more.\<close>

definition int_literal :: "string \<Rightarrow> int option" where
  "int_literal s =
     (let (neg, ds) = (case s of
                         [] \<Rightarrow> (False, [])
                       | c # r \<Rightarrow> if c = CHR ''-'' then (True, r)
                                  else if c = CHR ''+'' then (False, r) else (False, s))
      in if ds \<noteq> [] \<and> list_all is_digit ds
         then Some (if neg then - int (dec_value ds) else int (dec_value ds))
         else None)"

definition to_lower :: "char \<Rightarrow> char" where
  "to_lower c = (case map_of (zip ''ABCDEFGHIJKLMNOPQRSTUVWXYZ''
                                     ''abcdefghijklmnopqrstuvwxyz'') c of
                   Some l \<Rightarrow> l
                 | None \<Rightarrow> c)"

definition inf_spelling :: "string \<Rightarrow> bool" where
  "inf_spelling s = (map to_lower s \<in> set [''inf'', ''+inf'', ''-inf'',
                                           ''infinity'', ''+infinity'', ''-infinity''])"

text \<open>
  What \<^verbatim>\<open>pd.to_numeric(..., errors='coerce')\<close> makes of one cell:
  \<^item> \<open>Null\<close>: the missing value, the empty text, and a text that its number parser
    rejects. The parser needs a digit in every number but the spellings of infinity, so
    a text with no digit that is no such spelling is rejected;
  \<^item> \<open>Exact n small\<close>: a 64-bit integer or a plain integer literal of value \<open>n\<close>;
    \<open>small\<close> says that it has at most fifteen digits, so that the parser's
    double-precision accumulator holds it exactly. Python's \<^verbatim>\<open>int\<close> refuses a text
    of more than 4300 characters by default, so a longer literal is not counted here;
  \<^item> \<open>Other\<close>: every other text (decimal fractions, exponents, surrounding blanks,
    infinity, and so on), whose value is left to \<open>float_cast\<close>.
\<close>

datatype numeric = Null | Exact int bool | Other

fun classify :: "cell \<Rightarrow> numeric" where
  "classify NaN = Null"
| "classify (I64 w) = Exact (sint w) (\<bar>sint w\<bar> < 10 ^ 15)"
| "classify (Str s) =
     (if s = [] then Null
      else case int_literal s of
             Some n \<Rightarrow> if length s \<le> 4300 then Exact n (length (filter is_digit s) \<le> 15)
                       else Other
           | None \<Rightarrow> if list_ex is_digit s \<or> inf_spelling s \<or> CHR 0x00 \<in> set s
                     then Other else Null)"

definition in_int64 :: "int \<Rightarrow> bool" where
  "in_int64 n = (- (2 ^ 63) \<le> n \<and> n < 2 ^ 63)"

text \<open>
  \<^verbatim>\<open>pd.to_numeric(xs, errors='coerce').fillna(0).astype('int64')\<close>. When every cell is an
  integer within the 64-bit range, \<^verbatim>\<open>to_numeric\<close> returns an \<^verbatim>\<open>int64\<close> column and the
  two later calls change nothing. Otherwise the column is promoted (to \<^verbatim>\<open>float64\<close>, or
  to \<^verbatim>\<open>uint64\<close>): a null cell is filled with 0, a small integer survives the promotion
  unchanged, any other cell gets what \<open>float_cast\<close> says, and the cast raises when
  one value cannot be cast.
\<close>

definition to_int64 :: "library \<Rightarrow> cell list \<Rightarrow> exn + 64 word list" where
  "to_int64 L xs =
     (if list_all (\<lambda>v. case classify v of Exact n _ \<Rightarrow> in_int64 n | _ \<Rightarrow> False) xs
      then Inr (map (\<lambda>v. case classify v of Exact n _ \<Rightarrow> word_of_int n | _ \<Rightarrow> 0) xs)
      else let ys = map (\<lambda>v. case classify v of
                                Null \<Rightarrow> Some 0
                              | Exact n True \<Rightarrow> Some (word_of_int n)
                              | _ \<Rightarrow> float_cast L xs v) xs
           in if list_all (\<lambda>y. y \<noteq> None) ys then Inr (map the ys) else Inl ValueError)"

text \<open>Lines 66 to 73: the text of the dollars column without commas and dollar signs.\<close>

definition strip_dollars :: "cell list \<Rightarrow> cell list" where
  "strip_dollars xs = str_remove (CHR ''$'') (str_remove (CHR '','') (astype_str xs))"

definition coerce_dollars :: "library \<Rightarrow> cell list \<Rightarrow> exn + 64 word list" where
  "coerce_dollars L xs = to_int64 L (strip_dollars xs)"

section \<open>Column access\<close>

text \<open>
  \<^verbatim>\<open>df[label]\<close> is a Series when one column has the label and a DataFrame when several
  have it; \<^verbatim>\<open>df[labels]\<close> takes, for each label in turn, every column that has it, and
  raises \<^verbatim>\<open>KeyError\<close> when a label has none.
\<close>

datatype item = Series "cell list" | Frame dataframe

definition getitem :: "dataframe \<Rightarrow> string \<Rightarrow> exn + item" where
  "getitem df label =
     (case filter (\<lambda>p. fst p = label) (cols df) of
        [] \<Rightarrow> Inl KeyError
      | [p] \<Rightarrow> Inr (Series (snd p))
      | ps \<Rightarrow> Inr (Frame (df\<lparr>cols := ps\<rparr>)))"

definition getitem_list :: "dataframe \<Rightarrow> string list \<Rightarrow> exn + dataframe" where
  "getitem_list df labels =
     (if list_all (\<lambda>l. l \<in> set (columns df)) labels
      then Inr (df\<lparr>cols := concat (map (\<lambda>l. filter (\<lambda>p. fst p = l) (cols df)) labels)\<rparr>)
      else Inl KeyError)"

text \<open>\<^verbatim>\<open>df[label] = series\<close>: the column is replaced, or added when the label is new.\<close>

definition setitem :: "dataframe \<Rightarrow> string \<Rightarrow> cell list \<Rightarrow> dataframe" where
  "setitem df label xs =
     (if label \<in> set (columns df)
      then df\<lparr>cols := map (\<lambda>p. if fst p = label then (label, xs) else p) (cols df)\<rparr>
      else df\<lparr>cols := cols df @ [(label, xs)]\<rparr>)"

definition rename :: "(string \<times> string) list \<Rightarrow> dataframe \<Rightarrow> dataframe" where
  "rename mapping df =
     df\<lparr>cols := map (\<lambda>p. (case map_of mapping (fst p) of Some l \<Rightarrow> l | None \<Rightarrow> fst p, snd p))
                     (cols df)\<rparr>"

section \<open>finalize_dataframe\<close>

definition column_mapping :: "(string \<times> string) list" where
  "column_mapping = [(''fiscal_year'', ''year''),
                     (''investment_dollars'', ''502_investment_dollars''),
                     (''number_of_investments'', ''number_of_502_investment'')]"

definition required_columns :: "string list" where
  "required_columns = [''year'', ''county'', ''state_name'', ''county_fips'',
                       ''502_investment_dollars'', ''number_of_502_investment'']"

text \<open>
  Lines 56 to 78, on the table that holds the required columns. The accessor
  \<^verbatim>\<open>.str\<close> does not exist on a DataFrame and \<^verbatim>\<open>pd.to_numeric\<close> refuses one, so a
  label that occurs twice raises.
\<close>

definition coerce_dtypes :: "library \<Rightarrow> dataframe \<Rightarrow> exn + dataframe" where
  "coerce_dtypes L d0 =
     (case getitem d0 ''county_fips'' of
        Inl e \<Rightarrow> Inl e
      | Inr (Frame _) \<Rightarrow> Inl AttributeError
      | Inr (Series fips) \<Rightarrow>
          (let d1 = setitem d0 ''county_fips'' (coerce_county_fips fips)
           in case getitem d1 ''502_investment_dollars'' of
                Inl e \<Rightarrow> Inl e
              | Inr (Frame _) \<Rightarrow> Inl AttributeError
              | Inr (Series dollars) \<Rightarrow>
                  (let d2 = setitem d1 ''502_investment_dollars'' (strip_dollars dollars)
                   in case getitem d2 ''502_investment_dollars'' of
                        Inl e \<Rightarrow> Inl e
                      | Inr (Frame _) \<Rightarrow> Inl TypeError
                      | Inr (Series stripped) \<Rightarrow>
                          (case to_int64 L stripped of
                             Inl e \<Rightarrow> Inl e
                           | Inr ds \<Rightarrow>
                               (let d3 = setitem d2 ''502_investment_dollars'' (map I64 ds)
                                in case getitem d3 ''number_of_502_investment'' of
                                     Inl e \<Rightarrow> Inl e
                                   | Inr (Frame _) \<Rightarrow> Inl TypeError
                                   | Inr (Series n) \<Rightarrow>
                                       (case to_int64 L n of
                                          Inl e \<Rightarrow> Inl e
                                        | Inr ns \<Rightarrow>
                                            Inr (setitem d3 ''number_of_502_investment''
                                                   (map I64 ns))))))))"

text \<open>
  The function returns its log records and either the exception it raises or the table it
  returns. The copies of lines 28 and 54 are the identity on values; the last section
  follows the same statements on a store of objects.
\<close>

definition finalize_dataframe :: "library \<Rightarrow> dataframe \<Rightarrow> string \<Rightarrow> log \<times> (exn + dataframe)" where
  "finalize_dataframe L df filename =
     (let log1 = [(INFO, Finalizing filename),
                  (INFO, Original_shape (nrows df) (length (cols df))),
                  (INFO, Original_columns (columns df))];
          final_df = rename column_mapping df;
          log2 = log1 @ [(INFO, Columns_after_renaming (columns final_df))];
          missing_columns = filter (\<lambda>c. c \<notin> set (columns final_df)) required_columns
      in if missing_columns \<noteq> []
         then (log2 @ [(ERROR, Missing_required_columns filename missing_columns)],
               Inr empty_DataFrame)
         else (case getitem_list final_df required_columns of
                 Inl e \<Rightarrow> (log2, Inl e)
               | Inr d0 \<Rightarrow>
                   (case coerce_dtypes L d0 of
                      Inl e \<Rightarrow> (log2, Inl e)
                    | Inr out \<Rightarrow> (log2 @ [(INFO, Dtypes_after_coercion)], Inr out))))"

section \<open>The CSV writer\<close>

definition newline :: char where
  "newline = CHR 0x0A"

definition dquote :: char where
  "dquote = CHR 0x22"

text \<open>\<^verbatim>\<open>sep.join(xs)\<close>.\<close>

fun join :: "string \<Rightarrow> string list \<Rightarrow> string" where
  "join sep [] = []"
| "join sep [x] = x"
| "join sep (x # y # ys) = x @ sep @ join sep (y # ys)"

text \<open>\<^verbatim>\<open>int(x)\<close> on a cell value: the float NaN raises \<^verbatim>\<open>ValueError\<close>.\<close>

fun py_int :: "library \<Rightarrow> cell \<Rightarrow> exn + int" where
  "py_int L (I64 w) = Inr (sint w)"
| "py_int L NaN = Inl ValueError"
| "py_int L (Str s) = (case int_of_text L s of Some n \<Rightarrow> Inr n | None \<Rightarrow> Inl ValueError)"

text \<open>
  \<^verbatim>\<open>df.itertuples(index=False, name=None)\<close>: the rows as tuples, one component for each
  column (every column of a table has \<open>nrows\<close> values).
\<close>

definition itertuples :: "dataframe \<Rightarrow> cell list list" where
  "itertuples df = map (\<lambda>i. map (\<lambda>p. snd p ! i) (cols df)) [0..<nrows df]"

text \<open>
  Lines 96 to 103, the body of the loop for one row: unpacking into six names raises
  \<^verbatim>\<open>ValueError\<close> when the tuple has another length.
\<close>

definition format_row :: "library \<Rightarrow> cell list \<Rightarrow> exn + string" where
  "format_row L row =
     (case row of
        [year, county, state_name, county_fips, dollars, n_loans] \<Rightarrow>
          (let county' = (if isna county then [] else py_str county);
               state_name' = (if isna state_name then [] else py_str state_name);
               county_fips' = (if isna county_fips then [] else py_str county_fips)
           in case py_int L dollars of
                Inl e \<Rightarrow> Inl e
              | Inr d \<Rightarrow>
                  (case py_int L n_loans of
                     Inl e \<Rightarrow> Inl e
                   | Inr n \<Rightarrow>
                       Inr (py_str year @ '','' @ county' @ '','' @ state_name' @ '','' @
                            [dquote] @ county_fips' @ [dquote] @ '','' @
                            str_int d @ '','' @ str_int n @ [newline])))
      | _ \<Rightarrow> Inl ValueError)"

text \<open>The loop: what has been written so far, and the exception that stopped it, if any.\<close>

fun write_rows :: "library \<Rightarrow> cell list list \<Rightarrow> string \<Rightarrow> string \<times> exn option" where
  "write_rows L [] written = (written, None)"
| "write_rows L (row # rows) written =
     (case format_row L row of
        Inl e \<Rightarrow> (written, Some e)
      | Inr line \<Rightarrow> write_rows L rows (written @ line))"

text \<open>
  The file system is a map from paths to contents. Opening with mode \<^verbatim>\<open>'w'\<close> creates or
  truncates the file, and leaving the \<^verbatim>\<open>with\<close> block closes it, also when an exception
  passes, so what was written before the exception stays in the file. Failures of the
  operating system while opening or writing are not modelled.
\<close>

type_synonym files = "string \<rightharpoonup> string"

definition write_csv_only_county_fips_quoted ::
  "library \<Rightarrow> dataframe \<Rightarrow> files \<Rightarrow> string \<Rightarrow> files \<times> exn option" where
  "write_csv_only_county_fips_quoted L df fs output_path =
     (let cols' = [''year'', ''county'', ''state_name'', ''county_fips'',
                   ''502_investment_dollars'', ''number_of_502_investment''];
          header = join '','' cols' @ [newline]
      in case getitem_list df cols' of
           Inl e \<Rightarrow> (fs(output_path \<mapsto> header), Some e)
         | Inr sel \<Rightarrow>
             (case write_rows L (itertuples sel) header of
                (written, err) \<Rightarrow> (fs(output_path \<mapsto> written), err)))"

section \<open>process_csv_file\<close>

text \<open>\<^verbatim>\<open>os.path.basename\<close>: what follows the last slash.\<close>

definition basename :: "string \<Rightarrow> string" where
  "basename p = rev (takeWhile (\<lambda>c. c \<noteq> CHR ''/'') (rev p))"

text \<open>
  The function returns its log records, the file system it leaves and its result. Every
  exception is caught, logged and turned into \<^verbatim>\<open>(False, 0)\<close>. A path with no file
  makes \<^verbatim>\<open>pd.read_csv\<close> raise.
\<close>

definition process_csv_file ::
  "library \<Rightarrow> files \<Rightarrow> string \<Rightarrow> string \<Rightarrow> log \<times> files \<times> (bool \<times> nat)" where
  "process_csv_file L fs input_path output_path =
     (let log1 = [(INFO, Processing input_path)];
          failed = (\<lambda>lg e fs'. (lg @ [(ERROR, Error_processing input_path e)], fs', (False, 0)))
      in case (case fs input_path of None \<Rightarrow> Inl OSError | Some text \<Rightarrow> read_csv L text) of
           Inl e \<Rightarrow> failed log1 e fs
         | Inr df \<Rightarrow>
             (let log2 = log1 @ [(INFO, Loaded (nrows df) (length (cols df)) input_path)]
              in case finalize_dataframe L df (basename input_path) of
                   (flog, Inl e) \<Rightarrow> failed (log2 @ flog) e fs
                 | (flog, Inr finalized_df) \<Rightarrow>
                     if empty_df finalized_df
                     then (log2 @ flog @ [(ERROR, Failed_to_finalize input_path)], fs, (False, 0))
                     else (case write_csv_only_county_fips_quoted L finalized_df fs output_path of
                             (fs', Some e) \<Rightarrow> failed (log2 @ flog) e fs'
                           | (fs', None) \<Rightarrow>
                               (log2 @ flog @ [(INFO, Saved output_path),
                                               (INFO, Finalized_records (nrows finalized_df))],
                                fs', (True, nrows finalized_df)))))"

section \<open>The wording of the specification\<close>

text \<open>
  The specification's wording of lines 66 to 70: the text of the value with every comma and
  every dollar sign removed.
\<close>

definition dollars_text :: "cell \<Rightarrow> cell" where
  "dollars_text v = Str (filter (\<lambda>c. c \<noteq> CHR '','' \<and> c \<noteq> CHR ''$'') (py_str v))"

text \<open>
  The specification's wording of one record line: the six fields joined by commas, the
  \<^verbatim>\<open>county_fips\<close> field between double quotes, the two numbers in decimal, a newline
  at the end. A missing county, state name or FIPS code is the empty text.
\<close>

definition text_or_empty :: "cell \<Rightarrow> string" where
  "text_or_empty v = (if isna v then [] else py_str v)"

definition csv_line :: "cell \<Rightarrow> cell \<Rightarrow> cell \<Rightarrow> cell \<Rightarrow> 64 word \<Rightarrow> 64 word \<Rightarrow> string" where
  "csv_line year county state_name county_fips dollars n_loans =
     join '','' [py_str year, text_or_empty county, text_or_empty state_name,
                 [dquote] @ text_or_empty county_fips @ [dquote],
                 str_int (sint dollars), str_int (sint n_loans)] @ [newline]"

definition csv_header :: string where
  "csv_header = ''year,county,state_name,county_fips,502_investment_dollars,number_of_502_investment''
                @ [newline]"

text \<open>Line 48 for an input table: the required columns that are absent after the renaming.\<close>

definition missing_columns :: "dataframe \<Rightarrow> string list" where
  "missing_columns df =
     filter (\<lambda>c. c \<notin> set (columns (rename column_mapping df))) required_columns"

section \<open>Sample inputs\<close>

text \<open>A library that refuses whatever is left to it; closed examples use it.\<close>

definition strict_library :: library where
  "strict_library = \<lparr>read_csv = (\<lambda>_. Inl ParserError), float_cast = (\<lambda>_ _. None),
                      int_of_text = (\<lambda>_. None)\<rparr>"

text \<open>
  Three small input files and the tables \<^verbatim>\<open>pd.read_csv\<close> builds from them, for the
  closed examples: a file with one record, a file without the \<^verbatim>\<open>county_fips\<close> column,
  and a file with the header only.
\<close>

definition sample_csv :: string where
  "sample_csv = ''fiscal_year,county,state_name,county_fips,investment_dollars,number_of_investments''
     @ [newline] @ ''2020,Fulton,Georgia,13121.0,'' @ [dquote] @ ''$500,000'' @ [dquote] @ '',3''
     @ [newline]"

definition sample_table :: dataframe where
  "sample_table = \<lparr>nrows = 1,
     cols = [(''fiscal_year'', [Str ''2020'']), (''county'', [Str ''Fulton'']),
             (''state_name'', [Str ''Georgia'']), (''county_fips'', [Str ''13121.0'']),
             (''investment_dollars'', [Str ''$500,000'']),
             (''number_of_investments'', [Str ''3''])]\<rparr>"

definition no_fips_csv :: string where
  "no_fips_csv = ''fiscal_year,county,state_name,investment_dollars,number_of_investments''
     @ [newline] @ ''2020,Fulton,Georgia,500000,3'' @ [newline]"

definition no_fips_table :: dataframe where
  "no_fips_table = \<lparr>nrows = 1,
     cols = [(''fiscal_year'', [Str ''2020'']), (''county'', [Str ''Fulton'']),
             (''state_name'', [Str ''Georgia'']), (''investment_dollars'', [Str ''500000'']),
             (''number_of_investments'', [Str ''3''])]\<rparr>"

definition header_only_csv :: string where
  "header_only_csv =
     ''fiscal_year,county,state_name,county_fips,investment_dollars,number_of_investments''
     @ [newline]"

definition header_only_table :: dataframe where
  "header_only_table = \<lparr>nrows = 0,
     cols = [(''fiscal_year'', []), (''county'', []), (''state_name'', []), (''county_fips'', []),
             (''investment_dollars'', []), (''number_of_investments'', [])]\<rparr>"

definition sample_library :: library where
  "sample_library =
     \<lparr>read_csv = (\<lambda>text. if text = sample_csv then Inr sample_table
                          else if text = no_fips_csv then Inr no_fips_table
                          else if text = header_only_csv then Inr header_only_table
                          else Inl ParserError),
      float_cast = (\<lambda>_ _. None),
      int_of_text = (\<lambda>_. None)\<rparr>"

text \<open>An input file with both a \<^verbatim>\<open>fiscal_year\<close> and a \<^verbatim>\<open>year\<close> column, as read.\<close>

definition colliding_table :: dataframe where
  "colliding_table = \<lparr>nrows = 1,
     cols = [(''fiscal_year'', [Str ''2020'']), (''year'', [Str ''2019'']),
             (''county'', [Str ''Fulton'']), (''state_name'', [Str ''Georgia'']),
             (''county_fips'', [Str ''13121'']), (''investment_dollars'', [Str ''500000'']),
             (''number_of_investments'', [Str ''3''])]\<rparr>"

section \<open>finalize_dataframe on a store of objects\<close>

text \<open>
  To speak of the argument being left alone, tables live in a store, a list of objects
  addressed by position, and a Python variable holds an address. \<^verbatim>\<open>copy()\<close>,
  \<^verbatim>\<open>rename\<close>, \<^verbatim>\<open>pd.DataFrame()\<close> and \<^verbatim>\<open>df[labels]\<close> make a new object;
  \<^verbatim>\<open>df[label] = series\<close> changes the object at the address in place.
\<close>

type_synonym store = "dataframe list"

definition alloc :: "store \<Rightarrow> dataframe \<Rightarrow> nat \<times> store" where
  "alloc h v = (length h, h @ [v])"

definition store_setitem :: "store \<Rightarrow> nat \<Rightarrow> string \<Rightarrow> cell list \<Rightarrow> store" where
  "store_setitem h a label xs = h[a := setitem (h ! a) label xs]"

text \<open>Lines 56 to 78 on the object at address \<open>a\<close>: the store left, and the exception if any.\<close>

definition coerce_dtypes_obj :: "library \<Rightarrow> store \<Rightarrow> nat \<Rightarrow> store \<times> exn option" where
  "coerce_dtypes_obj L h a =
     (case getitem (h ! a) ''county_fips'' of
        Inl e \<Rightarrow> (h, Some e)
      | Inr (Frame _) \<Rightarrow> (h, Some AttributeError)
      | Inr (Series fips) \<Rightarrow>
          (let h1 = store_setitem h a ''county_fips'' (coerce_county_fips fips)
           in case getitem (h1 ! a) ''502_investment_dollars'' of
                Inl e \<Rightarrow> (h1, Some e)
              | Inr (Frame _) \<Rightarrow> (h1, Some AttributeError)
              | Inr (Series dollars) \<Rightarrow>
                  (let h2 = store_setitem h1 a ''502_investment_dollars'' (strip_dollars dollars)
                   in case getitem (h2 ! a) ''502_investment_dollars'' of
                        Inl e \<Rightarrow> (h2, Some e)
                      | Inr (Frame _) \<Rightarrow> (h2, Some TypeError)
                      | Inr (Series stripped) \<Rightarrow>
                          (case to_int64 L stripped of
                             Inl e \<Rightarrow> (h2, Some e)
                           | Inr ds \<Rightarrow>
                               (let h3 = store_setitem h2 a ''502_investment_dollars'' (map I64 ds)
                                in case getitem (h3 ! a) ''number_of_502_investment'' of
                                     Inl e \<Rightarrow> (h3, Some e)
                                   | Inr (Frame _) \<Rightarrow> (h3, Some TypeError)
                                   | Inr (Series n) \<Rightarrow>
                                       (case to_int64 L n of
                                          Inl e \<Rightarrow> (h3, Some e)
                                        | Inr ns \<Rightarrow>
                                            (store_setitem h3 a ''number_of_502_investment''
                                               (map I64 ns), None)))))))"

text \<open>
  The whole function on the store: \<open>df\<close> is the address of the argument, the result
  is the address of the returned table.
\<close>

definition finalize_dataframe_obj ::
  "library \<Rightarrow> store \<Rightarrow> nat \<Rightarrow> string \<Rightarrow> log \<times> store \<times> (exn + nat)" where
  "finalize_dataframe_obj L h df filename =
     (let log1 = [(INFO, Finalizing filename),
                  (INFO, Original_shape (nrows (h ! df)) (length (cols (h ! df)))),
                  (INFO, Original_columns (columns (h ! df)))];
          (copied, h1) = alloc h (h ! df);
          (final_df, h2) = alloc h1 (rename column_mapping (h1 ! copied));
          log2 = log1 @ [(INFO, Columns_after_renaming (columns (h2 ! final_df)))];
          missing_columns = filter (\<lambda>c. c \<notin> set (columns (h2 ! final_df))) required_columns
      in if missing_columns \<noteq> []
         then (let (e, h3) = alloc h2 empty_DataFrame
               in (log2 @ [(ERROR, Missing_required_columns filename missing_columns)], h3, Inr e))
         else (case getitem_list (h2 ! final_df) required_columns of
                 Inl e \<Rightarrow> (log2, h2, Inl e)
               | Inr selected \<Rightarrow>
                   (let (sel, h3) = alloc h2 selected;
                        (final_df', h4) = alloc h3 (h3 ! sel)
                    in case coerce_dtypes_obj L h4 final_df' of
                         (h5, Some e) \<Rightarrow> (log2, h5, Inl e)
                       | (h5, None) \<Rightarrow> (log2 @ [(INFO, Dtypes_after_coercion)], h5, Inr final_df'))))"

section \<open>Properties\<close>

lemma re_search_digits_run:
  "re_search_digits s = (if first_digit_run s = [] then None else Some (first_digit_run s))"
proof (induction s)
  case Nil
  show ?case by (simp add: first_digit_run_def)
next
  case (Cons c cs)
  show ?case
  proof (cases "is_digit c")
    case True
    then show ?thesis by (simp add: match_digits_def first_digit_run_def)
  next
    case False
    then show ?thesis using Cons.IH by (simp add: match_digits_def first_digit_run_def)
  qed
qed

lemma coerce_county_fips_cell:
  "coerce_county_fips xs = map (\<lambda>v. Str (first_digit_run (py_str v))) xs"
  by (simp add: coerce_county_fips_def fillna_def str_extract_digits_def astype_str_def
      re_search_digits_run)

text \<open>
  C3. For every value of \<^verbatim>\<open>county_fips\<close> the coercion takes the text of the value and
  returns the first contiguous run of digits in it, the empty text when there is none,
  and pads nothing: \<^verbatim>\<open>1007.0\<close> gives \<^verbatim>\<open>1007\<close>, \<^verbatim>\<open>abc\<close> gives the empty text and
  \<^verbatim>\<open>01007\<close> keeps its leading zero.
\<close>

theorem county_fips_first_digit_run:
  "coerce_county_fips xs = map (\<lambda>v. Str (first_digit_run (py_str v))) xs
   \<and> coerce_county_fips [Str ''1007.0'', Str ''abc'', Str ''01007'', NaN]
       = [Str ''1007'', Str '''', Str ''01007'', Str '''']"
  by (simp add: coerce_county_fips_cell first_digit_run_def is_digit_def)


section \<open>Selecting columns with distinct labels\<close>

lemma filter_label_absent: "l \<notin> fst ` set ps \<Longrightarrow> filter (\<lambda>p. fst p = l) ps = []"
  by (induction ps) auto

lemma filter_label_unique:
  "distinct (map fst ps) \<Longrightarrow> map_of ps l = Some v \<Longrightarrow> filter (\<lambda>p. fst p = l) ps = [(l, v)]"
proof (induction ps)
  case Nil
  then show ?case by simp
next
  case (Cons p ps)
  show ?case
  proof (cases "fst p = l")
    case True
    with Cons.prems have "l \<notin> fst ` set ps" and "snd p = v" by auto
    with True show ?thesis by (cases p) (simp add: filter_label_absent)
  next
    case False
    with Cons show ?thesis by (cases p) auto
  qed
qed

lemma getitem_list_distinct:
  assumes "distinct (columns df)" and "set labels \<subseteq> set (columns df)"
  shows "getitem_list df labels = Inr (df\<lparr>cols := map (\<lambda>l. (l, the (map_of (cols df) l))) labels\<rparr>)"
proof -
  have "filter (\<lambda>p. fst p = l) (cols df) = [(l, the (map_of (cols df) l))]" if "l \<in> set labels" for l
  proof -
    from that assms(2) have "l \<in> fst ` set (cols df)" by (auto simp: columns_def)
    then obtain v where "map_of (cols df) l = Some v"
      by (metis domD dom_map_of_conv_image_fst)
    with assms(1) show ?thesis by (simp add: filter_label_unique columns_def)
  qed
  then have "concat (map (\<lambda>l. filter (\<lambda>p. fst p = l) (cols df)) labels)
               = map (\<lambda>l. (l, the (map_of (cols df) l))) labels"
    by (induction labels) auto
  moreover from assms(2) have "list_all (\<lambda>l. l \<in> set (columns df)) labels"
    by (auto simp: list_all_iff)
  ultimately show ?thesis by (simp add: getitem_list_def)
qed

lemma coerce_dtypes_six:
  "coerce_dtypes L \<lparr>nrows = k, cols = [(''year'', y), (''county'', c), (''state_name'', s),
       (''county_fips'', f), (''502_investment_dollars'', d), (''number_of_502_investment'', n)]\<rparr>
   = (case coerce_dollars L d of
        Inl e \<Rightarrow> Inl e
      | Inr ds \<Rightarrow> (case to_int64 L n of
                     Inl e \<Rightarrow> Inl e
                   | Inr ns \<Rightarrow> Inr \<lparr>nrows = k, cols = [(''year'', y), (''county'', c), (''state_name'', s),
                        (''county_fips'', coerce_county_fips f),
                        (''502_investment_dollars'', map I64 ds),
                        (''number_of_502_investment'', map I64 ns)]\<rparr>))"
  by (simp add: coerce_dtypes_def getitem_def setitem_def columns_def coerce_dollars_def
      split: sum.splits)


section \<open>The numeric coercion, cell by cell\<close>









lemma to_int64_length: "to_int64 L xs = Inr ws \<Longrightarrow> length ws = length xs"
  by (auto simp: to_int64_def Let_def split: if_splits)





lemmas numeric_eval = to_int64_def int_literal_def is_digit_def inf_spelling_def to_lower_def
  dec_value_def digit_val_def in_int64_def

lemma strip_dollars_map:
  "strip_dollars xs = map (\<lambda>v. Str (filter (\<lambda>c. c \<noteq> CHR '','' \<and> c \<noteq> CHR ''$'') (py_str v))) xs"
  by (simp add: strip_dollars_def str_remove_def astype_str_def conj_commute)




lemma strip_dollars_text: "strip_dollars xs = map dollars_text xs"
  by (simp add: strip_dollars_map dollars_text_def)



section \<open>The writer on a finalized table\<close>

lemma format_row_finalized:
  "format_row L [y, c, s, f, I64 d, I64 n] = Inr (csv_line y c s f d n)"
  by (simp add: format_row_def csv_line_def text_or_empty_def)

lemma write_rows_map:
  "(\<And>i. i \<in> set is \<Longrightarrow> format_row L (row i) = Inr (line i))
   \<Longrightarrow> write_rows L (map row is) written = (written @ concat (map line is), None)"
  by (induction "is" arbitrary: written) simp_all

lemma getitem_list_six:
  "cols df = [(''year'', ys), (''county'', cs), (''state_name'', ss), (''county_fips'', fips),
              (''502_investment_dollars'', ds), (''number_of_502_investment'', ns)]
   \<Longrightarrow> getitem_list df [''year'', ''county'', ''state_name'', ''county_fips'',
                   ''502_investment_dollars'', ''number_of_502_investment''] = Inr df"
  by (simp add: getitem_list_def columns_def)

lemma write_csv_finalized:
  assumes c: "cols df = [(''year'', ys), (''county'', cs), (''state_name'', ss),
                      (''county_fips'', fips), (''502_investment_dollars'', map I64 ds),
                      (''number_of_502_investment'', map I64 ns)]"
    and wf: "wf_df df"
  shows "write_csv_only_county_fips_quoted L df files path =
           (files(path \<mapsto> csv_header @ concat (map (\<lambda>i. csv_line (ys ! i) (cs ! i) (ss ! i) (fips ! i)
                                                              (ds ! i) (ns ! i)) [0..<nrows df])),
            None)"
proof -
  from c wf have len: "length ds = nrows df" "length ns = nrows df"
    by (simp_all add: wf_df_def)
  let ?line = "\<lambda>i. csv_line (ys ! i) (cs ! i) (ss ! i) (fips ! i) (ds ! i) (ns ! i)"
  let ?row = "\<lambda>i. map (\<lambda>p. snd p ! i) (cols df)"
  have "format_row L (?row i) = Inr (?line i)" if "i \<in> set [0..<nrows df]" for i
    using that len by (simp add: c format_row_finalized)
  then have "write_rows L (map ?row [0..<nrows df]) csv_header
               = (csv_header @ concat (map ?line [0..<nrows df]), None)"
    by (rule write_rows_map)
  then show ?thesis
    by (simp add: write_csv_only_county_fips_quoted_def getitem_list_six [OF c] itertuples_def
        csv_header_def)
qed

lemma upt_0_2: "[0..<2] = [0, Suc 0]"
  by (simp add: numeral_2_eq_2)

lemmas writer_eval = upt_0_2 write_csv_only_county_fips_quoted_def getitem_list_def columns_def
  itertuples_def csv_header_def format_row_def str_int_def str_nat.simps digit_char_def

text \<open>
  C1. For a finalized table (the six columns in their order, the last two holding 64-bit
  integers), the writer leaves in the file the header, which is the six field names
  joined by commas and a newline, and then one line for each record in order: the six
  fields joined by commas, only \<^verbatim>\<open>county_fips\<close> between double quotes, the dollars and
  the count as bare integers, a newline at the end. The record 2020, Fulton, Georgia,
  13121, 500000, 3 gives the line \<^verbatim>\<open>2020,Fulton,Georgia,"13121",500000,3\<close> and a newline.
\<close>

theorem writer_header_and_lines:
  "(wf_df df \<and>
    cols df = [(''year'', ys), (''county'', cs), (''state_name'', ss), (''county_fips'', fips),
               (''502_investment_dollars'', map I64 ds), (''number_of_502_investment'', map I64 ns)]
    \<longrightarrow> write_csv_only_county_fips_quoted L df files path =
          (files(path \<mapsto> csv_header @
                   concat (map (\<lambda>i. csv_line (ys ! i) (cs ! i) (ss ! i) (fips ! i) (ds ! i) (ns ! i))
                             [0..<nrows df])), None))
   \<and> csv_header = join '','' required_columns @ [newline]
   \<and> csv_line (Str ''2020'') (Str ''Fulton'') (Str ''Georgia'') (Str ''13121'') 500000 3
       = ''2020,Fulton,Georgia,'' @ [dquote] @ ''13121'' @ [dquote] @ '',500000,3'' @ [newline]
   \<and> write_csv_only_county_fips_quoted L
        \<lparr>nrows = 1, cols = [(''year'', [Str ''2020'']), (''county'', [Str ''Fulton'']),
           (''state_name'', [Str ''Georgia'']), (''county_fips'', [Str ''13121'']),
           (''502_investment_dollars'', [I64 500000]), (''number_of_502_investment'', [I64 3])]\<rparr>
        files path
      = (files(path \<mapsto> csv_header @ ''2020,Fulton,Georgia,'' @ [dquote] @ ''13121'' @ [dquote]
                                   @ '',500000,3'' @ [newline]), None)"
proof (intro conjI impI)
  assume "wf_df df \<and>
    cols df = [(''year'', ys), (''county'', cs), (''state_name'', ss), (''county_fips'', fips),
               (''502_investment_dollars'', map I64 ds), (''number_of_502_investment'', map I64 ns)]"
  then show "write_csv_only_county_fips_quoted L df files path =
          (files(path \<mapsto> csv_header @
                   concat (map (\<lambda>i. csv_line (ys ! i) (cs ! i) (ss ! i) (fips ! i) (ds ! i) (ns ! i))
                             [0..<nrows df])), None)"
    by (simp add: write_csv_finalized)
next
  show "csv_header = join '','' required_columns @ [newline]"
    by (simp add: csv_header_def required_columns_def)
next
  show "csv_line (Str ''2020'') (Str ''Fulton'') (Str ''Georgia'') (Str ''13121'') 500000 3
       = ''2020,Fulton,Georgia,'' @ [dquote] @ ''13121'' @ [dquote] @ '',500000,3'' @ [newline]"
    by (simp add: csv_line_def text_or_empty_def str_int_def str_nat.simps digit_char_def)
next
  show "write_csv_only_county_fips_quoted L
        \<lparr>nrows = 1, cols = [(''year'', [Str ''2020'']), (''county'', [Str ''Fulton'']),
           (''state_name'', [Str ''Georgia'']), (''county_fips'', [Str ''13121'']),
           (''502_investment_dollars'', [I64 500000]), (''number_of_502_investment'', [I64 3])]\<rparr>
        files path
      = (files(path \<mapsto> csv_header @ ''2020,Fulton,Georgia,'' @ [dquote] @ ''13121'' @ [dquote]
                                   @ '',500000,3'' @ [newline]), None)"
    by (simp add: writer_eval)
qed

theorem writer_header_and_lines_witness:
  "wf_df \<lparr>nrows = 2, cols = [(''year'', [Str ''2021'', Str ''2022'']),
           (''county'', [Str ''Bibb'', NaN]), (''state_name'', [Str ''Alabama'', Str ''Ohio'']),
           (''county_fips'', [Str ''01007'', Str []]),
           (''502_investment_dollars'', map I64 [303030, 0]),
           (''number_of_502_investment'', map I64 [12, 0])]\<rparr>
   \<and> fst (write_csv_only_county_fips_quoted strict_library
        \<lparr>nrows = 2, cols = [(''year'', [Str ''2021'', Str ''2022'']),
           (''county'', [Str ''Bibb'', NaN]), (''state_name'', [Str ''Alabama'', Str ''Ohio'']),
           (''county_fips'', [Str ''01007'', Str []]),
           (''502_investment_dollars'', map I64 [303030, 0]),
           (''number_of_502_investment'', map I64 [12, 0])]\<rparr>
        Map.empty ''final_data/a.csv'') ''final_data/a.csv''
      = Some (csv_header @ ''2021,Bibb,Alabama,'' @ [dquote] @ ''01007'' @ [dquote] @ '',303030,12''
              @ [newline] @ ''2022,,Ohio,'' @ [dquote, dquote] @ '',0,0'' @ [newline])"
  using writer_header_and_lines [of
      "\<lparr>nrows = 2, cols = [(''year'', [Str ''2021'', Str ''2022'']),
           (''county'', [Str ''Bibb'', NaN]), (''state_name'', [Str ''Alabama'', Str ''Ohio'']),
           (''county_fips'', [Str ''01007'', Str []]),
           (''502_investment_dollars'', map I64 [303030, 0]),
           (''number_of_502_investment'', map I64 [12, 0])]\<rparr>"
      "[Str ''2021'', Str ''2022'']" "[Str ''Bibb'', NaN]" "[Str ''Alabama'', Str ''Ohio'']"
      "[Str ''01007'', Str []]" "[303030, 0]" "[12, 0]" strict_library Map.empty
      "''final_data/a.csv''"]
  by (simp add: wf_df_def writer_eval)

text \<open>
  C9. The writer replaces a missing county, state name or FIPS code by the empty text,
  and does not guard the year: a record whose year is missing has the text \<^verbatim>\<open>nan\<close> in
  the year position of its line.
\<close>

theorem writer_year_nan:
  "format_row L [NaN, c, s, f, I64 d, I64 n]
     = Inr (''nan'' @ '','' @ text_or_empty c @ '','' @ text_or_empty s @ '','' @
            [dquote] @ text_or_empty f @ [dquote] @ '','' @
            str_int (sint d) @ '','' @ str_int (sint n) @ [newline])
   \<and> format_row L [y, NaN, NaN, NaN, I64 d, I64 n]
     = Inr (py_str y @ '',,,'' @ [dquote, dquote] @ '','' @
            str_int (sint d) @ '','' @ str_int (sint n) @ [newline])
   \<and> write_csv_only_county_fips_quoted L
        \<lparr>nrows = 2, cols = [(''year'', [NaN, Str ''2020'']), (''county'', [Str ''Fulton'', NaN]),
           (''state_name'', [Str ''Georgia'', NaN]), (''county_fips'', [Str ''13121'', NaN]),
           (''502_investment_dollars'', [I64 500000, I64 0]),
           (''number_of_502_investment'', [I64 3, I64 0])]\<rparr>
        files path
      = (files(path \<mapsto> csv_header
                 @ ''nan,Fulton,Georgia,'' @ [dquote] @ ''13121'' @ [dquote] @ '',500000,3'' @ [newline]
                 @ ''2020,,,'' @ [dquote, dquote] @ '',0,0'' @ [newline]), None)"
  by (simp add: format_row_def text_or_empty_def writer_eval)

section \<open>finalize_dataframe on distinct labels\<close>

lemma nrows_rename [simp]: "nrows (rename m df) = nrows df"
  by (simp add: rename_def)

lemma finalize_dataframe_distinct:
  assumes d: "distinct (columns (rename column_mapping df))"
    and r: "set required_columns \<subseteq> set (columns (rename column_mapping df))"
  shows "snd (finalize_dataframe L df filename) =
     (let col = (\<lambda>l. the (map_of (cols (rename column_mapping df)) l))
      in case coerce_dollars L (col ''502_investment_dollars'') of
           Inl e \<Rightarrow> Inl e
         | Inr ds \<Rightarrow>
             (case to_int64 L (col ''number_of_502_investment'') of
                Inl e \<Rightarrow> Inl e
              | Inr ns \<Rightarrow>
                  Inr \<lparr>nrows = nrows df,
                       cols = [(''year'', col ''year''), (''county'', col ''county''),
                               (''state_name'', col ''state_name''),
                               (''county_fips'', coerce_county_fips (col ''county_fips'')),
                               (''502_investment_dollars'', map I64 ds),
                               (''number_of_502_investment'', map I64 ns)]\<rparr>))"
proof -
  let ?fd = "rename column_mapping df"
  let ?col = "\<lambda>l. the (map_of (cols ?fd) l)"
  from r have none: "filter (\<lambda>c. c \<notin> set (columns ?fd)) required_columns = []"
    by (auto simp: filter_empty_conv)
  have "getitem_list ?fd required_columns
          = Inr (?fd\<lparr>cols := map (\<lambda>l. (l, ?col l)) required_columns\<rparr>)"
    by (rule getitem_list_distinct [OF d r])
  also have "?fd\<lparr>cols := map (\<lambda>l. (l, ?col l)) required_columns\<rparr>
          = \<lparr>nrows = nrows df,
             cols = [(''year'', ?col ''year''), (''county'', ?col ''county''),
                     (''state_name'', ?col ''state_name''), (''county_fips'', ?col ''county_fips''),
                     (''502_investment_dollars'', ?col ''502_investment_dollars''),
                     (''number_of_502_investment'', ?col ''number_of_502_investment'')]\<rparr>"
    by (simp add: required_columns_def)
  finally have sel: "getitem_list ?fd required_columns = Inr \<lparr>nrows = nrows df,
             cols = [(''year'', ?col ''year''), (''county'', ?col ''county''),
                     (''state_name'', ?col ''state_name''), (''county_fips'', ?col ''county_fips''),
                     (''502_investment_dollars'', ?col ''502_investment_dollars''),
                     (''number_of_502_investment'', ?col ''number_of_502_investment'')]\<rparr>" .
  show ?thesis
    by (simp add: finalize_dataframe_def Let_def none sel coerce_dtypes_six split: sum.splits)
qed

section \<open>Failure of finalize_dataframe\<close>

lemma nrows_setitem [simp]: "nrows (setitem df l xs) = nrows df"
  by (simp add: setitem_def)

lemma getitem_list_nrows: "getitem_list df ls = Inr d \<Longrightarrow> nrows d = nrows df"
  by (auto simp: getitem_list_def split: if_splits)

lemma coerce_dtypes_nrows: "coerce_dtypes L d = Inr out \<Longrightarrow> nrows out = nrows d"
  by (auto simp: coerce_dtypes_def Let_def split: sum.splits item.splits)

lemma finalize_dataframe_nrows:
  "missing_columns df = [] \<Longrightarrow> snd (finalize_dataframe L df filename) = Inr out
   \<Longrightarrow> nrows out = nrows df"
  by (auto simp: finalize_dataframe_def missing_columns_def Let_def
      dest!: getitem_list_nrows coerce_dtypes_nrows split: sum.splits)

lemma finalize_dataframe_missing:
  "missing_columns df \<noteq> [] \<Longrightarrow>
   finalize_dataframe L df filename =
     ([(INFO, Finalizing filename), (INFO, Original_shape (nrows df) (length (cols df))),
       (INFO, Original_columns (columns df)),
       (INFO, Columns_after_renaming (columns (rename column_mapping df))),
       (ERROR, Missing_required_columns filename (missing_columns df))],
      Inr empty_DataFrame)"
  by (simp add: finalize_dataframe_def missing_columns_def Let_def)

lemma process_csv_file_missing:
  assumes "fs input_path = Some text" and "read_csv L text = Inr df"
    and "missing_columns df \<noteq> []"
  shows "process_csv_file L fs input_path output_path =
     ([(INFO, Processing input_path), (INFO, Loaded (nrows df) (length (cols df)) input_path)]
      @ fst (finalize_dataframe L df (basename input_path))
      @ [(ERROR, Failed_to_finalize input_path)], fs, (False, 0))"
  using assms
  by (simp add: process_csv_file_def finalize_dataframe_missing empty_df_def empty_DataFrame_def)

text \<open>
  C5. When a required column is absent after the renaming, \<open>finalize_dataframe\<close> logs an
  error that lists the absent columns and returns the empty table, and
  \<open>process_csv_file\<close> reports failure and leaves the file system as it was: no
  output file is written. A table without \<^verbatim>\<open>county_fips\<close> is such an input.
\<close>

theorem missing_columns_no_output:
  "(missing_columns df \<noteq> [] \<longrightarrow>
      snd (finalize_dataframe L df filename) = Inr empty_DataFrame \<and>
      last (fst (finalize_dataframe L df filename))
        = (ERROR, Missing_required_columns filename (missing_columns df)))
   \<and> (fs input_path = Some text \<and> read_csv L text = Inr df \<and> missing_columns df \<noteq> [] \<longrightarrow>
        snd (process_csv_file L fs input_path output_path) = (fs, (False, 0)) \<and>
        (ERROR, Missing_required_columns (basename input_path) (missing_columns df))
          \<in> set (fst (process_csv_file L fs input_path output_path)))
   \<and> missing_columns no_fips_table = [''county_fips'']"
proof (intro conjI impI)
  assume "missing_columns df \<noteq> []"
  then show "snd (finalize_dataframe L df filename) = Inr empty_DataFrame"
    and "last (fst (finalize_dataframe L df filename))
        = (ERROR, Missing_required_columns filename (missing_columns df))"
    by (simp_all add: finalize_dataframe_missing)
next
  assume a: "fs input_path = Some text \<and> read_csv L text = Inr df \<and> missing_columns df \<noteq> []"
  then have p: "process_csv_file L fs input_path output_path =
     ([(INFO, Processing input_path), (INFO, Loaded (nrows df) (length (cols df)) input_path)]
      @ fst (finalize_dataframe L df (basename input_path))
      @ [(ERROR, Failed_to_finalize input_path)], fs, (False, 0))"
    by (simp add: process_csv_file_missing)
  show "snd (process_csv_file L fs input_path output_path) = (fs, (False, 0))"
    by (simp add: p)
  from a show "(ERROR, Missing_required_columns (basename input_path) (missing_columns df))
          \<in> set (fst (process_csv_file L fs input_path output_path))"
    by (simp add: p finalize_dataframe_missing)
next
  show "missing_columns no_fips_table = [''county_fips'']"
    by (simp add: missing_columns_def no_fips_table_def rename_def columns_def column_mapping_def
        required_columns_def)
qed

theorem missing_columns_no_output_witness:
  "missing_columns no_fips_table \<noteq> []
   \<and> [''appalachian_data/a.csv'' \<mapsto> no_fips_csv] ''appalachian_data/a.csv'' = Some no_fips_csv
   \<and> read_csv sample_library no_fips_csv = Inr no_fips_table
   \<and> snd (finalize_dataframe sample_library no_fips_table ''a.csv'') = Inr empty_DataFrame
   \<and> snd (process_csv_file sample_library [''appalachian_data/a.csv'' \<mapsto> no_fips_csv]
             ''appalachian_data/a.csv'' ''final_data/a.csv'')
       = ([''appalachian_data/a.csv'' \<mapsto> no_fips_csv], (False, 0))"
proof -
  have m: "missing_columns no_fips_table \<noteq> []"
    by (simp add: missing_columns_def no_fips_table_def rename_def columns_def column_mapping_def
        required_columns_def)
  have r: "read_csv sample_library no_fips_csv = Inr no_fips_table"
    by (simp add: sample_library_def no_fips_csv_def sample_csv_def)
  have f: "[''appalachian_data/a.csv'' \<mapsto> no_fips_csv] ''appalachian_data/a.csv'' = Some no_fips_csv"
    by simp
  from m r f missing_columns_no_output [of no_fips_table sample_library "''a.csv''"
      "[''appalachian_data/a.csv'' \<mapsto> no_fips_csv]" "''appalachian_data/a.csv''" no_fips_csv
      "''final_data/a.csv''"]
  show ?thesis by simp
qed

text \<open>
  C7. A table with no row that has the six required columns after the renaming makes
  \<open>process_csv_file\<close> report failure, with an error record at the end of its log, and
  leave the file system as it was: no output file is written, not even an empty one.
\<close>

theorem zero_rows_no_output:
  "fs input_path = Some text \<and> read_csv L text = Inr df \<and> nrows df = 0 \<and> missing_columns df = []
   \<longrightarrow> snd (process_csv_file L fs input_path output_path) = (fs, (False, 0))
       \<and> fst (last (fst (process_csv_file L fs input_path output_path))) = ERROR"
proof (intro impI)
  assume a: "fs input_path = Some text \<and> read_csv L text = Inr df \<and> nrows df = 0
             \<and> missing_columns df = []"
  obtain flog r where f: "finalize_dataframe L df (basename input_path) = (flog, r)"
    by (cases "finalize_dataframe L df (basename input_path)")
  show "snd (process_csv_file L fs input_path output_path) = (fs, (False, 0))
       \<and> fst (last (fst (process_csv_file L fs input_path output_path))) = ERROR"
  proof (cases r)
    case (Inl e)
    with a f show ?thesis by (simp add: process_csv_file_def)
  next
    case (Inr out)
    with a f finalize_dataframe_nrows [of df L "basename input_path" out]
    have "empty_df out" by (simp add: empty_df_def)
    with a f Inr show ?thesis by (simp add: process_csv_file_def)
  qed
qed

theorem zero_rows_no_output_witness:
  "[''appalachian_data/h.csv'' \<mapsto> header_only_csv] ''appalachian_data/h.csv'' = Some header_only_csv
   \<and> read_csv sample_library header_only_csv = Inr header_only_table
   \<and> nrows header_only_table = 0 \<and> missing_columns header_only_table = []
   \<and> snd (process_csv_file sample_library [''appalachian_data/h.csv'' \<mapsto> header_only_csv]
             ''appalachian_data/h.csv'' ''final_data/h.csv'')
       = ([''appalachian_data/h.csv'' \<mapsto> header_only_csv], (False, 0))"
proof -
  have m: "missing_columns header_only_table = []"
    by (simp add: missing_columns_def header_only_table_def rename_def columns_def
        column_mapping_def required_columns_def)
  have r: "read_csv sample_library header_only_csv = Inr header_only_table"
    by (simp add: sample_library_def header_only_csv_def sample_csv_def no_fips_csv_def)
  have n: "nrows header_only_table = 0"
    by (simp add: header_only_table_def)
  have f: "[''appalachian_data/h.csv'' \<mapsto> header_only_csv] ''appalachian_data/h.csv''
             = Some header_only_csv"
    by simp
  from m r n f zero_rows_no_output [of "[''appalachian_data/h.csv'' \<mapsto> header_only_csv]"
      "''appalachian_data/h.csv''" header_only_csv sample_library header_only_table
      "''final_data/h.csv''"]
  show ?thesis by simp
qed

section \<open>Two runs of process_csv_file\<close>

lemma process_csv_file_depends:
  "fs input_path = fs' input_path \<Longrightarrow>
   fst (process_csv_file L fs input_path output_path) = fst (process_csv_file L fs' input_path output_path)
   \<and> snd (snd (process_csv_file L fs input_path output_path))
       = snd (snd (process_csv_file L fs' input_path output_path))
   \<and> (fst (snd (process_csv_file L fs input_path output_path)) = fs
        \<and> fst (snd (process_csv_file L fs' input_path output_path)) = fs'
      \<or> (\<exists>w. fst (snd (process_csv_file L fs input_path output_path)) = fs(output_path \<mapsto> w)
        \<and> fst (snd (process_csv_file L fs' input_path output_path)) = fs'(output_path \<mapsto> w)))"
  apply (simp add: process_csv_file_def Let_def split: option.splits sum.splits prod.splits)
  apply (intro allI impI conjI)
  apply (auto simp: write_csv_only_county_fips_quoted_def Let_def split: sum.splits prod.splits)
  done

lemma sample_finalized:
  "finalize_dataframe L sample_table ''s.csv'' =
     ([(INFO, Finalizing ''s.csv''), (INFO, Original_shape 1 6),
       (INFO, Original_columns [''fiscal_year'', ''county'', ''state_name'', ''county_fips'',
                                ''investment_dollars'', ''number_of_investments'']),
       (INFO, Columns_after_renaming required_columns), (INFO, Dtypes_after_coercion)],
      Inr \<lparr>nrows = 1,
           cols = [(''year'', [Str ''2020'']), (''county'', [Str ''Fulton'']),
                   (''state_name'', [Str ''Georgia'']), (''county_fips'', [Str ''13121'']),
                   (''502_investment_dollars'', [I64 500000]),
                   (''number_of_502_investment'', [I64 3])]\<rparr>)"
  by (simp add: finalize_dataframe_def sample_table_def rename_def column_mapping_def
      columns_def required_columns_def getitem_list_def coerce_dtypes_six coerce_dollars_def
      strip_dollars_map coerce_county_fips_cell first_digit_run_def numeric_eval)

lemma sample_processed:
  "fs ''appalachian_data/s.csv'' = Some sample_csv \<Longrightarrow>
   snd (process_csv_file sample_library fs ''appalachian_data/s.csv'' ''final_data/s.csv'')
     = (fs(''final_data/s.csv'' \<mapsto> csv_header @ ''2020,Fulton,Georgia,'' @ [dquote] @ ''13121''
                                       @ [dquote] @ '',500000,3'' @ [newline]), (True, 1))"
  by (simp add: process_csv_file_def sample_library_def basename_def sample_finalized empty_df_def
      writer_eval)

text \<open>
  C8. The text that \<open>process_csv_file\<close> writes depends on the content of the input
  file only: on two file systems that agree on the input file, the two runs have the same
  log and the same result, and either both write nothing or both write the same text to
  the output path. When the output path is not the input path, a second run on the file
  system that the first run left returns the same and leaves the file system, hence the
  output file, as the first run left it.
\<close>

theorem two_runs_same_output:
  "(fs input_path = fs' input_path \<longrightarrow>
      fst (process_csv_file L fs input_path output_path)
        = fst (process_csv_file L fs' input_path output_path)
      \<and> snd (snd (process_csv_file L fs input_path output_path))
        = snd (snd (process_csv_file L fs' input_path output_path))
      \<and> (fst (snd (process_csv_file L fs input_path output_path)) = fs
            \<and> fst (snd (process_csv_file L fs' input_path output_path)) = fs'
          \<or> (\<exists>w. fst (snd (process_csv_file L fs input_path output_path)) = fs(output_path \<mapsto> w)
                \<and> fst (snd (process_csv_file L fs' input_path output_path))
                    = fs'(output_path \<mapsto> w))))
   \<and> (input_path \<noteq> output_path \<longrightarrow>
        process_csv_file L (fst (snd (process_csv_file L fs input_path output_path)))
            input_path output_path
          = process_csv_file L fs input_path output_path)"
proof (intro conjI impI)
  assume "fs input_path = fs' input_path"
  with process_csv_file_depends [of fs input_path fs' L output_path]
  show "fst (process_csv_file L fs input_path output_path)
        = fst (process_csv_file L fs' input_path output_path)"
    and "snd (snd (process_csv_file L fs input_path output_path))
        = snd (snd (process_csv_file L fs' input_path output_path))"
    and "fst (snd (process_csv_file L fs input_path output_path)) = fs
            \<and> fst (snd (process_csv_file L fs' input_path output_path)) = fs'
          \<or> (\<exists>w. fst (snd (process_csv_file L fs input_path output_path)) = fs(output_path \<mapsto> w)
                \<and> fst (snd (process_csv_file L fs' input_path output_path))
                    = fs'(output_path \<mapsto> w))"
    by blast+
next
  assume ne: "input_path \<noteq> output_path"
  let ?run = "\<lambda>f. process_csv_file L f input_path output_path"
  let ?fs1 = "fst (snd (?run fs))"
  have same: "fs input_path = ?fs1 input_path"
    using process_csv_file_depends [of fs input_path fs L output_path] ne by auto
  from same process_csv_file_depends [of fs input_path ?fs1 L output_path]
  have lg: "fst (?run ?fs1) = fst (?run fs)" and r: "snd (snd (?run ?fs1)) = snd (snd (?run fs))"
    and w: "?fs1 = fs \<and> fst (snd (?run ?fs1)) = ?fs1
          \<or> (\<exists>w. ?fs1 = fs(output_path \<mapsto> w) \<and> fst (snd (?run ?fs1)) = ?fs1(output_path \<mapsto> w))"
    by auto
  from w have "fst (snd (?run ?fs1)) = ?fs1" by auto
  with lg r show "?run ?fs1 = ?run fs" by (simp add: prod_eq_iff)
qed

theorem two_runs_same_output_witness:
  "''appalachian_data/s.csv'' \<noteq> ''final_data/s.csv''
   \<and> [''appalachian_data/s.csv'' \<mapsto> sample_csv] ''appalachian_data/s.csv''
       = [''appalachian_data/s.csv'' \<mapsto> sample_csv, ''final_data/s.csv'' \<mapsto> ''old'']
           ''appalachian_data/s.csv''
   \<and> snd (process_csv_file sample_library [''appalachian_data/s.csv'' \<mapsto> sample_csv]
             ''appalachian_data/s.csv'' ''final_data/s.csv'')
       = ([''appalachian_data/s.csv'' \<mapsto> sample_csv,
           ''final_data/s.csv'' \<mapsto> csv_header @ ''2020,Fulton,Georgia,'' @ [dquote] @ ''13121''
                                       @ [dquote] @ '',500000,3'' @ [newline]], (True, 1))
   \<and> fst (snd (process_csv_file sample_library
                 [''appalachian_data/s.csv'' \<mapsto> sample_csv, ''final_data/s.csv'' \<mapsto> ''old'']
                 ''appalachian_data/s.csv'' ''final_data/s.csv'')) ''final_data/s.csv''
       = fst (snd (process_csv_file sample_library [''appalachian_data/s.csv'' \<mapsto> sample_csv]
                 ''appalachian_data/s.csv'' ''final_data/s.csv'')) ''final_data/s.csv''
   \<and> process_csv_file sample_library
         (fst (snd (process_csv_file sample_library [''appalachian_data/s.csv'' \<mapsto> sample_csv]
                      ''appalachian_data/s.csv'' ''final_data/s.csv'')))
         ''appalachian_data/s.csv'' ''final_data/s.csv''
       = process_csv_file sample_library [''appalachian_data/s.csv'' \<mapsto> sample_csv]
           ''appalachian_data/s.csv'' ''final_data/s.csv''"
proof -
  have ne: "''appalachian_data/s.csv'' \<noteq> ''final_data/s.csv''" by simp
  have eq: "[''appalachian_data/s.csv'' \<mapsto> sample_csv] ''appalachian_data/s.csv''
       = [''appalachian_data/s.csv'' \<mapsto> sample_csv, ''final_data/s.csv'' \<mapsto> ''old'']
           ''appalachian_data/s.csv''"
    by simp
  from ne eq two_runs_same_output [of "[''appalachian_data/s.csv'' \<mapsto> sample_csv]"
      "''appalachian_data/s.csv''"
      "[''appalachian_data/s.csv'' \<mapsto> sample_csv, ''final_data/s.csv'' \<mapsto> ''old'']"
      sample_library "''final_data/s.csv''"]
  show ?thesis by (simp add: sample_processed)
qed

section \<open>The argument of finalize_dataframe\<close>

lemma store_setitem_frame:
  "length (store_setitem h a l xs) = length h"
  "b \<noteq> a \<Longrightarrow> store_setitem h a l xs ! b = h ! b"
  "a < length h \<Longrightarrow> store_setitem h a l xs ! a = setitem (h ! a) l xs"
  by (simp_all add: store_setitem_def)

lemma coerce_dtypes_obj_frame:
  "coerce_dtypes_obj L h a = (h', r) \<Longrightarrow> length h' = length h \<and> (\<forall>b. b \<noteq> a \<longrightarrow> h' ! b = h ! b)"
  by (auto simp: coerce_dtypes_obj_def Let_def store_setitem_frame
      split: sum.splits item.splits)

lemma coerce_dtypes_obj_value:
  "a < length h \<Longrightarrow>
   (case coerce_dtypes_obj L h a of
      (h', None) \<Rightarrow> coerce_dtypes L (h ! a) = Inr (h' ! a)
    | (h', Some e) \<Rightarrow> coerce_dtypes L (h ! a) = Inl e)"
  by (auto simp: coerce_dtypes_obj_def coerce_dtypes_def Let_def store_setitem_frame
      split: sum.splits item.splits)

lemma nth_append_fourth: "(h @ [a, b, c, d]) ! Suc (Suc (Suc (length h))) = d"
  by (simp add: nth_append)

lemma finalize_dataframe_obj_frame:
  assumes "finalize_dataframe_obj L h df filename = (lg, h', r)"
  shows "length h \<le> length h' \<and> (\<forall>a<length h. h' ! a = h ! a)
         \<and> (\<forall>a. r = Inr a \<longrightarrow> length h \<le> a \<and> a < length h')"
proof (cases "filter (\<lambda>c. c \<notin> set (columns (rename column_mapping (h ! df)))) required_columns = []")
  case False
  with assms show ?thesis
    by (auto simp: finalize_dataframe_obj_def alloc_def Let_def nth_append)
next
  case True
  show ?thesis
  proof (cases "getitem_list (rename column_mapping (h ! df)) required_columns")
    case (Inl e)
    with True assms show ?thesis
      by (auto simp: finalize_dataframe_obj_def alloc_def Let_def nth_append)
  next
    case (Inr selected)
    let ?h4 = "h @ [h ! df, rename column_mapping (h ! df), selected, selected]"
    obtain h5 err where c: "coerce_dtypes_obj L ?h4 (Suc (Suc (Suc (length h)))) = (h5, err)"
      by (cases "coerce_dtypes_obj L ?h4 (Suc (Suc (Suc (length h))))")
    from coerce_dtypes_obj_frame [OF c]
    have len: "length h5 = length h + 4" and same: "\<forall>b. b \<noteq> Suc (Suc (Suc (length h))) \<longrightarrow> h5 ! b = ?h4 ! b"
      by simp_all
    have old: "\<forall>a<length h. h5 ! a = h ! a"
      using same by (simp add: nth_append)
    from True Inr c assms have "h' = h5 \<and> (r = Inr (Suc (Suc (Suc (length h)))) \<or> (\<exists>e. r = Inl e))"
      by (auto simp: finalize_dataframe_obj_def alloc_def Let_def nth_append split: option.splits)
    with len old show ?thesis by auto
  qed
qed

lemma finalize_dataframe_obj_value:
  "case finalize_dataframe_obj L h df filename of
     (lg, h', r) \<Rightarrow>
       finalize_dataframe L (h ! df) filename = (lg, case r of Inl e \<Rightarrow> Inl e | Inr a \<Rightarrow> Inr (h' ! a))"
proof (cases "filter (\<lambda>c. c \<notin> set (columns (rename column_mapping (h ! df)))) required_columns = []")
  case False
  then show ?thesis
    by (simp add: finalize_dataframe_obj_def finalize_dataframe_def alloc_def Let_def nth_append)
next
  case True
  show ?thesis
  proof (cases "getitem_list (rename column_mapping (h ! df)) required_columns")
    case (Inl e)
    with True show ?thesis
      by (simp add: finalize_dataframe_obj_def finalize_dataframe_def alloc_def Let_def nth_append)
  next
    case (Inr selected)
    let ?h4 = "h @ [h ! df, rename column_mapping (h ! df), selected, selected]"
    have "Suc (Suc (Suc (length h))) < length ?h4" by simp
    from coerce_dtypes_obj_value [OF this, of L, unfolded nth_append_fourth]
    have "case coerce_dtypes_obj L ?h4 (Suc (Suc (Suc (length h)))) of
            (h', None) \<Rightarrow> coerce_dtypes L selected = Inr (h' ! (Suc (Suc (Suc (length h)))))
          | (h', Some e) \<Rightarrow> coerce_dtypes L selected = Inl e"
      .
    with True Inr show ?thesis
      by (auto simp: finalize_dataframe_obj_def finalize_dataframe_def alloc_def Let_def nth_append
          split: option.splits prod.splits)
  qed
qed

text \<open>
  C10. \<open>finalize_dataframe\<close> does not change its argument: whether it returns a table,
  returns the empty table for missing columns or raises, every object that existed
  before the call, the argument among them, has the columns and cells it had; the table
  it returns is a new object. The log and the returned table are those of the function
  on values.
\<close>

theorem finalize_leaves_argument:
  "df < length h \<longrightarrow>
     (case finalize_dataframe_obj L h df filename of
        (lg, h', r) \<Rightarrow>
          h' ! df = h ! df
          \<and> (\<forall>a<length h. h' ! a = h ! a)
          \<and> (\<forall>a. r = Inr a \<longrightarrow> length h \<le> a \<and> a < length h')
          \<and> finalize_dataframe L (h ! df) filename
              = (lg, case r of Inl e \<Rightarrow> Inl e | Inr a \<Rightarrow> Inr (h' ! a)))"
proof (intro impI)
  assume d: "df < length h"
  obtain lg h' r where f: "finalize_dataframe_obj L h df filename = (lg, h', r)"
    by (cases "finalize_dataframe_obj L h df filename")
  from finalize_dataframe_obj_frame [OF f] d
  have "h' ! df = h ! df" and "\<forall>a<length h. h' ! a = h ! a"
    and "\<forall>a. r = Inr a \<longrightarrow> length h \<le> a \<and> a < length h'"
    by simp_all
  moreover from finalize_dataframe_obj_value [of L h df filename] f
  have "finalize_dataframe L (h ! df) filename
          = (lg, case r of Inl e \<Rightarrow> Inl e | Inr a \<Rightarrow> Inr (h' ! a))"
    by simp
  ultimately show "case finalize_dataframe_obj L h df filename of
        (lg, h', r) \<Rightarrow>
          h' ! df = h ! df
          \<and> (\<forall>a<length h. h' ! a = h ! a)
          \<and> (\<forall>a. r = Inr a \<longrightarrow> length h \<le> a \<and> a < length h')
          \<and> finalize_dataframe L (h ! df) filename
              = (lg, case r of Inl e \<Rightarrow> Inl e | Inr a \<Rightarrow> Inr (h' ! a))"
    by (simp add: f)
qed

theorem finalize_leaves_argument_witness:
  "(0::nat) < length [sample_table, no_fips_table]
   \<and> (case finalize_dataframe_obj sample_library [sample_table, no_fips_table] 0 ''s.csv'' of
        (lg, h', r) \<Rightarrow> h' ! 0 = sample_table \<and> h' ! 1 = no_fips_table \<and> r = Inr 5
          \<and> h' ! 5 = \<lparr>nrows = 1,
               cols = [(''year'', [Str ''2020'']), (''county'', [Str ''Fulton'']),
                       (''state_name'', [Str ''Georgia'']), (''county_fips'', [Str ''13121'']),
                       (''502_investment_dollars'', [I64 500000]),
                       (''number_of_502_investment'', [I64 3])]\<rparr>)"
proof -
  have l: "(0::nat) < length [sample_table, no_fips_table]" by simp
  obtain lg h' r where f:
    "finalize_dataframe_obj sample_library [sample_table, no_fips_table] 0 ''s.csv'' = (lg, h', r)"
    by (cases "finalize_dataframe_obj sample_library [sample_table, no_fips_table] 0 ''s.csv''")
  have "r = Inr 5"
    using f
    by (simp add: finalize_dataframe_obj_def alloc_def sample_table_def rename_def
        column_mapping_def columns_def required_columns_def getitem_list_def
        coerce_dtypes_obj_def getitem_def store_setitem_def setitem_def
        strip_dollars_map coerce_county_fips_cell first_digit_run_def numeric_eval
        split: prod.splits) auto
  with l f finalize_leaves_argument [of 0 "[sample_table, no_fips_table]" sample_library "''s.csv''"]
  show ?thesis by (auto simp: sample_finalized)
qed

section \<open>The columns that finalize_dataframe returns\<close>

lemma finalize_dataframe_six_columns:
  assumes "distinct (columns (rename column_mapping df))" and "missing_columns df = []"
    and "snd (finalize_dataframe L df filename) = Inr out"
  shows "columns out = required_columns \<and> nrows out = nrows df"
proof -
  from assms(2) have "set required_columns \<subseteq> set (columns (rename column_mapping df))"
    by (auto simp: missing_columns_def filter_empty_conv)
  from finalize_dataframe_distinct [OF assms(1) this, of L filename] assms(3)
  show ?thesis
    by (auto simp: Let_def columns_def required_columns_def split: sum.splits)
qed

text \<open>
  C2. When the six required fields are present after the renaming, the returned table
  should have exactly these six columns. It has them when the labels after the renaming
  are distinct (the lemma above). It does not when the renaming makes two labels equal:
  for an input with both a \<^verbatim>\<open>fiscal_year\<close> and a \<^verbatim>\<open>year\<close> column, whose labels are
  distinct and contain no missing column, the selection of line 54 takes both columns
  now labelled \<^verbatim>\<open>year\<close> and the function returns seven columns; the writer then
  writes the header, fails on the first row and leaves a file with the header only.
\<close>

theorem colliding_rename_seven_columns:
  "distinct (columns colliding_table)
   \<and> missing_columns colliding_table = []
   \<and> snd (finalize_dataframe L colliding_table filename)
       = Inr \<lparr>nrows = 1,
              cols = [(''year'', [Str ''2020'']), (''year'', [Str ''2019'']),
                      (''county'', [Str ''Fulton'']), (''state_name'', [Str ''Georgia'']),
                      (''county_fips'', [Str ''13121'']),
                      (''502_investment_dollars'', [I64 500000]),
                      (''number_of_502_investment'', [I64 3])]\<rparr>
   \<and> write_csv_only_county_fips_quoted L
         \<lparr>nrows = 1,
          cols = [(''year'', [Str ''2020'']), (''year'', [Str ''2019'']),
                  (''county'', [Str ''Fulton'']), (''state_name'', [Str ''Georgia'']),
                  (''county_fips'', [Str ''13121'']),
                  (''502_investment_dollars'', [I64 500000]),
                  (''number_of_502_investment'', [I64 3])]\<rparr> files path
       = (files(path \<mapsto> csv_header), Some ValueError)"
proof (intro conjI)
  show "distinct (columns colliding_table)"
    by (simp add: colliding_table_def columns_def)
  show "missing_columns colliding_table = []"
    by (simp add: missing_columns_def colliding_table_def rename_def columns_def
        column_mapping_def required_columns_def)
  show "snd (finalize_dataframe L colliding_table filename)
       = Inr \<lparr>nrows = 1,
              cols = [(''year'', [Str ''2020'']), (''year'', [Str ''2019'']),
                      (''county'', [Str ''Fulton'']), (''state_name'', [Str ''Georgia'']),
                      (''county_fips'', [Str ''13121'']),
                      (''502_investment_dollars'', [I64 500000]),
                      (''number_of_502_investment'', [I64 3])]\<rparr>"
    by (simp add: finalize_dataframe_def colliding_table_def rename_def column_mapping_def
        columns_def required_columns_def getitem_list_def coerce_dtypes_def getitem_def
        setitem_def strip_dollars_map coerce_county_fips_cell first_digit_run_def numeric_eval)
  show "write_csv_only_county_fips_quoted L
         \<lparr>nrows = 1,
          cols = [(''year'', [Str ''2020'']), (''year'', [Str ''2019'']),
                  (''county'', [Str ''Fulton'']), (''state_name'', [Str ''Georgia'']),
                  (''county_fips'', [Str ''13121'']),
                  (''502_investment_dollars'', [I64 500000]),
                  (''number_of_502_investment'', [I64 3])]\<rparr> files path
       = (files(path \<mapsto> csv_header), Some ValueError)"
    by (simp add: writer_eval)
qed

section \<open>From finalize_dataframe to the writer\<close>

text \<open>
  With distinct labels after the renaming, the table that \<open>finalize_dataframe\<close> returns
  for a well-formed input is a finalized table in the sense of the writer's theorem.
\<close>

lemma column_length:
  assumes "wf_df df" and "l \<in> set (columns (rename column_mapping df))"
  shows "length (the (map_of (cols (rename column_mapping df)) l)) = nrows df"
proof -
  from assms(2) obtain v where v: "map_of (cols (rename column_mapping df)) l = Some v"
    by (metis columns_def domD dom_map_of_conv_image_fst list.set_map)
  then have "(l, v) \<in> set (cols (rename column_mapping df))" by (rule map_of_SomeD)
  then have "v \<in> snd ` set (cols df)" by (auto simp: rename_def)
  with assms(1) have "length v = nrows df" by (auto simp: wf_df_def list_all_iff)
  with v show ?thesis by simp
qed

lemma finalize_dataframe_finalized:
  assumes wf: "wf_df df" and d: "distinct (columns (rename column_mapping df))"
    and m: "missing_columns df = []"
    and f: "snd (finalize_dataframe L df filename) = Inr out"
  shows "wf_df out \<and> nrows out = nrows df \<and>
         (\<exists>ys cs ss fips ds ns.
            cols out = [(''year'', ys), (''county'', cs), (''state_name'', ss),
                        (''county_fips'', fips), (''502_investment_dollars'', map I64 ds),
                        (''number_of_502_investment'', map I64 ns)])"
proof -
  let ?col = "\<lambda>l. the (map_of (cols (rename column_mapping df)) l)"
  from m have r: "set required_columns \<subseteq> set (columns (rename column_mapping df))"
    by (auto simp: missing_columns_def filter_empty_conv)
  then have len: "length (?col l) = nrows df" if "l \<in> set required_columns" for l
    using that column_length [OF wf] by blast
  from finalize_dataframe_distinct [OF d r, of L filename] f
  obtain ds ns where ds: "coerce_dollars L (?col ''502_investment_dollars'') = Inr ds"
    and ns: "to_int64 L (?col ''number_of_502_investment'') = Inr ns"
    and out: "out = \<lparr>nrows = nrows df,
                   cols = [(''year'', ?col ''year''), (''county'', ?col ''county''),
                           (''state_name'', ?col ''state_name''),
                           (''county_fips'', coerce_county_fips (?col ''county_fips'')),
                           (''502_investment_dollars'', map I64 ds),
                           (''number_of_502_investment'', map I64 ns)]\<rparr>"
    by (auto simp: Let_def split: sum.splits)
  from ds have "length ds = length (?col ''502_investment_dollars'')"
    by (auto simp: coerce_dollars_def strip_dollars_text dest: to_int64_length)
  moreover from ns have "length ns = length (?col ''number_of_502_investment'')"
    by (rule to_int64_length)
  ultimately have "wf_df out"
    using len by (simp add: out wf_df_def required_columns_def coerce_county_fips_cell)
  with out show ?thesis by auto
qed

end
